theory Spec2Isabelle
  imports Complex_Main
begin

section \<open>Shared vocabulary of the resilience layer\<close>

text \<open>
  A thrown JavaScript value other than \<open>undefined\<close> and \<open>null\<close>, as far as the resilience
  code reads it: \<open>error.message\<close> (absent or falsy is \<open>None\<close> or the empty string),
  \<open>error.code\<close> and the result of \<open>error.toString()\<close>.
\<close>

record jserror =
  message :: "string option"
  code :: "string option"
  tostring :: string

text \<open>
  What a \<open>catch\<close> block receives: JavaScript can throw any value, also \<open>undefined\<close> and
  \<open>null\<close> (a promise rejected without a reason), of which no property can be read.
\<close>

datatype thrown = ThrownNullish | Thrown jserror

text \<open>
  The state the asynchronous code runs in: \<open>clock\<close> is what \<open>Date.now()\<close> returns (ms),
  \<open>ext\<close> is the state of the external systems the callbacks act on, \<open>metrics\<close> are the
  request counters of the manager (the retry closure increments one of them), and \<open>log\<close> is
  a ghost record of the external calls and timer waits the resilience code performs, oldest
  first.
\<close>

datatype event = Invoke | Refresh | Sleep real

record metrics =
  totalRequests :: int
  successfulRequests :: int
  failedRequests :: int
  autoFixedRequests :: int

record 'x world =
  clock :: int
  ext :: 'x
  metrics :: metrics
  log :: "event list"

definition noMetrics :: metrics where
  "noMetrics = \<lparr>totalRequests = 0, successfulRequests = 0, failedRequests = 0, autoFixedRequests = 0\<rparr>"

type_synonym ('a, 'x) action = "'x world \<Rightarrow> (thrown + 'a) \<times> 'x world"

section \<open>CircuitBreaker\<close>

datatype cbstate = CLOSED | OPEN | HALF_OPEN

record CircuitBreaker =
  failureCount :: int
  threshold :: int
  timeout :: int
  state :: cbstate
  lastFailureTime :: "int option"

definition newCircuitBreaker :: "int \<Rightarrow> int \<Rightarrow> CircuitBreaker" where
  "newCircuitBreaker th tmo =
     \<lparr>failureCount = 0, threshold = th, timeout = tmo, state = CLOSED, lastFailureTime = None\<rparr>"

definition circuitOpenError :: jserror where
  "circuitOpenError =
     \<lparr>message = Some ''Circuit breaker is OPEN - Service temporarily unavailable'',
      code = None,
      tostring = ''Error: Circuit breaker is OPEN - Service temporarily unavailable''\<rparr>"

definition onSuccess :: "CircuitBreaker \<Rightarrow> CircuitBreaker" where
  "onSuccess cb = cb\<lparr>failureCount := 0, state := CLOSED\<rparr>"

definition onFailure :: "CircuitBreaker \<Rightarrow> int \<Rightarrow> CircuitBreaker" where
  "onFailure cb now =
     (let cb1 = cb\<lparr>failureCount := failureCount cb + 1, lastFailureTime := Some now\<rparr>
      in if failureCount cb1 \<ge> threshold cb1 then cb1\<lparr>state := OPEN\<rparr> else cb1)"

text \<open>\<open>Date.now() - this.lastFailureTime\<close>: a \<open>null\<close> operand counts as 0.\<close>

definition sinceLastFailure :: "CircuitBreaker \<Rightarrow> int \<Rightarrow> int" where
  "sinceLastFailure cb now = now - (case lastFailureTime cb of None \<Rightarrow> 0 | Some t \<Rightarrow> t)"

text \<open>The \<open>try { await fn() } catch\<close> part of \<open>execute\<close>.\<close>

definition callThrough ::
  "CircuitBreaker \<Rightarrow> ('a, 'x) action \<Rightarrow> 'x world \<Rightarrow> (thrown + 'a) \<times> CircuitBreaker \<times> 'x world" where
  "callThrough cb fn w =
     (case fn w of
        (Inr r, w') \<Rightarrow> (Inr r, onSuccess cb, w')
      | (Inl e, w') \<Rightarrow> (Inl e, onFailure cb (clock w'), w'))"

definition execute ::
  "CircuitBreaker \<Rightarrow> ('a, 'x) action \<Rightarrow> 'x world \<Rightarrow> (thrown + 'a) \<times> CircuitBreaker \<times> 'x world" where
  "execute cb fn w =
     (if state cb = OPEN then
        (if sinceLastFailure cb (clock w) > timeout cb
         then callThrough (cb\<lparr>state := HALF_OPEN\<rparr>) fn w
         else (Inl (Thrown circuitOpenError), cb, w))
      else callThrough cb fn w)"

text \<open>
  A series of \<open>execute\<close> calls on one breaker; each call comes with its transport and the
  world it is made in. \<open>failedCallThroughs\<close> says that every call of the series reaches its
  transport (it is not rejected by an open circuit) and that the transport fails.
\<close>

fun runCalls :: "CircuitBreaker \<Rightarrow> (('a, 'x) action \<times> 'x world) list \<Rightarrow> CircuitBreaker" where
  "runCalls cb [] = cb"
| "runCalls cb ((fn, w) # cs) = runCalls (fst (snd (execute cb fn w))) cs"

definition reachesTransport :: "CircuitBreaker \<Rightarrow> 'x world \<Rightarrow> bool" where
  "reachesTransport cb w = (if state cb = OPEN then sinceLastFailure cb (clock w) > timeout cb else True)"

fun failedCallThroughs :: "CircuitBreaker \<Rightarrow> (('a, 'x) action \<times> 'x world) list \<Rightarrow> bool" where
  "failedCallThroughs cb [] = True"
| "failedCallThroughs cb ((fn, w) # cs) =
     (reachesTransport cb w \<and> isl (fst (fn w)) \<and> failedCallThroughs (fst (snd (execute cb fn w))) cs)"

text \<open>A transport that always fails, and a world to call it in.\<close>

definition failing :: "(nat, unit) action" where
  "failing w =
     (Inl (Thrown \<lparr>message = Some ''503'', code = None, tostring = ''Error: 503''\<rparr>),
      w\<lparr>clock := clock w + 5\<rparr>)"

definition w0 :: "unit world" where
  "w0 = \<lparr>clock = 100, ext = (), metrics = noMetrics, log = []\<rparr>"

section \<open>classifyError\<close>

datatype errorType =
  AUTH_EXPIRED | RATE_LIMITED | TEMPORARY_NETWORK | SERVICE_DOWN
  | DATA_VALIDATION | NOT_FOUND | PERMISSION_DENIED | UNKNOWN_ERROR

text \<open>
  The regular expressions of \<open>classifyError\<close> are alternatives of sequences of literal
  characters, \<open>.?\<close> and \<open>.*\<close>, all with the flag \<open>i\<close>. Under that flag a character of the
  expression and one of the string match when their canonical forms are equal; \<open>upper\<close> is
  the canonical form, as a character code (ASCII letters in upper case; no character outside
  ASCII is mapped into ASCII). Matching therefore runs on the canonical codes of both sides.
  \<open>.\<close> matches every character but a line terminator.
\<close>

datatype atom = Ch nat | AnyOpt | AnyStar

type_synonym pattern = "atom list list"

definition upper :: "char \<Rightarrow> nat" where
  "upper c = (let n = (of_char c :: nat) in if 97 \<le> n \<and> n \<le> 122 then n - 32 else n)"

definition lineTerminator :: "nat \<Rightarrow> bool" where
  "lineTerminator c = (c = 10 \<or> c = 13)"

definition lit :: "string \<Rightarrow> atom list" where
  "lit s = map (\<lambda>c. Ch (upper c)) s"

text \<open>Does the sequence match at the start of the string?\<close>

fun matchHere :: "atom list \<Rightarrow> nat list \<Rightarrow> bool" where
  "matchHere [] s = True"
| "matchHere (Ch p # as) [] = False"
| "matchHere (Ch p # as) (c # cs) = (if p = c then matchHere as cs else False)"
| "matchHere (AnyOpt # as) [] = matchHere as []"
| "matchHere (AnyOpt # as) (c # cs) =
     ((if lineTerminator c then False else matchHere as cs) \<or> matchHere as (c # cs))"
| "matchHere (AnyStar # as) [] = matchHere as []"
| "matchHere (AnyStar # as) (c # cs) =
     (matchHere as (c # cs) \<or> (if lineTerminator c then False else matchHere (AnyStar # as) cs))"

text \<open>Does it match somewhere in the string? (\<open>RegExp.prototype.test\<close> is not anchored.)\<close>

fun search :: "atom list \<Rightarrow> nat list \<Rightarrow> bool" where
  "search as [] = matchHere as []"
| "search as (c # cs) = (matchHere as (c # cs) \<or> search as cs)"

definition test :: "pattern \<Rightarrow> string \<Rightarrow> bool" where
  "test p s = list_ex (\<lambda>alt. search alt (map upper s)) p"

definition patterns :: "(errorType \<times> pattern) list" where
  "patterns =
   [(AUTH_EXPIRED, [lit ''401'', lit ''unauthorized'',
                    lit ''token'' @ [AnyStar] @ lit ''expired'',
                    lit ''JWT'' @ [AnyStar] @ lit ''expired'']),
    (RATE_LIMITED, [lit ''429'', lit ''rate'' @ [AnyOpt] @ lit ''limit'',
                    lit ''too'' @ [AnyOpt] @ lit ''many'' @ [AnyOpt] @ lit ''requests'']),
    (TEMPORARY_NETWORK, [lit ''timeout'', lit ''ECONNRESET'', lit ''network'',
                         lit ''ETIMEDOUT'', lit ''ENOTFOUND'']),
    (SERVICE_DOWN, [lit ''503'', lit ''service'' @ [AnyOpt] @ lit ''unavailable'',
                    lit ''502'', lit ''504'']),
    (DATA_VALIDATION, [lit ''400'', lit ''bad'' @ [AnyOpt] @ lit ''request'',
                       lit ''validation'', lit ''invalid'']),
    (NOT_FOUND, [lit ''404'', lit ''not'' @ [AnyOpt] @ lit ''found'']),
    (PERMISSION_DENIED, [lit ''403'', lit ''forbidden'',
                         lit ''permission'' @ [AnyStar] @ lit ''denied''])]"

text \<open>\<open>error.message || error.toString()\<close>, and \<open>error.code\<close> as \<open>test\<close> converts it.\<close>

definition errorString :: "jserror \<Rightarrow> string" where
  "errorString e = (case message e of None \<Rightarrow> tostring e | Some m \<Rightarrow> if m = [] then tostring e else m)"

definition codeString :: "jserror \<Rightarrow> string" where
  "codeString e = (case code e of None \<Rightarrow> ''undefined'' | Some c \<Rightarrow> c)"

text \<open>The loop over \<open>Object.entries(patterns)\<close>: the first entry that matches decides.\<close>

fun firstMatch :: "(errorType \<times> pattern) list \<Rightarrow> string \<Rightarrow> string \<Rightarrow> errorType" where
  "firstMatch [] s c = UNKNOWN_ERROR"
| "firstMatch ((ty, p) # ps) s c = (if test p s \<or> test p c then ty else firstMatch ps s c)"

definition classifyError :: "jserror \<Rightarrow> errorType" where
  "classifyError e = firstMatch patterns (errorString e) (codeString e)"

definition mkError :: "string \<Rightarrow> jserror" where
  "mkError m = \<lparr>message = Some m, code = None, tostring = ''Error: '' @ m\<rparr>"

text \<open>
  Vocabulary for stating what the classifier does: an error \<open>indicates\<close> a text when its
  error string or its code contains the text, letter case aside; it \<open>matchesType\<close> a type
  when that type's expression matches the error string or the code.
\<close>

definition containsCI :: "string \<Rightarrow> string \<Rightarrow> bool" where
  "containsCI t s = (\<exists>p q. map upper s = p @ map upper t @ q)"

definition indicates :: "string \<Rightarrow> jserror \<Rightarrow> bool" where
  "indicates t e = (containsCI t (errorString e) \<or> containsCI t (codeString e))"

definition patternOf :: "errorType \<Rightarrow> pattern" where
  "patternOf ty = (case map_of patterns ty of None \<Rightarrow> [] | Some p \<Rightarrow> p)"

definition matchesType :: "errorType \<Rightarrow> jserror \<Rightarrow> bool" where
  "matchesType ty e = (test (patternOf ty) (errorString e) \<or> test (patternOf ty) (codeString e))"

definition matchesAny :: "errorType list \<Rightarrow> jserror \<Rightarrow> bool" where
  "matchesAny tys e = list_ex (\<lambda>ty. matchesType ty e) tys"

text \<open>The message of an HTTP client for a response with the given status code.\<close>

definition statusError :: "string \<Rightarrow> jserror" where
  "statusError c = mkError (''Request failed with status code '' @ c)"

section \<open>BaseApiClient.checkRateLimit\<close>

definition windowMs :: int where
  "windowMs = 60000"

text \<open>
  One call of \<open>checkRateLimit\<close>, made when \<open>Date.now()\<close> is \<open>now\<close>, on the timestamps stored
  under \<open>'requests'\<close>. It returns the delay it waits for, if it waits, and the timestamps it
  stores. With nothing recent to read (\<open>recentRequests[0]\<close> undefined) the delay is not a
  number and the timer is set to 1 ms.
\<close>

definition checkRateLimit :: "int \<Rightarrow> int \<Rightarrow> int list \<Rightarrow> int option \<times> int list" where
  "checkRateLimit requestsPerMinute now requests =
     (let recentRequests = filter (\<lambda>time. now - time < windowMs) requests;
          waitTime =
            (if int (length recentRequests) \<ge> requestsPerMinute
             then (case recentRequests of [] \<Rightarrow> Some 1 | oldest # _ \<Rightarrow> Some (windowMs - (now - oldest)))
             else None)
      in (waitTime, recentRequests @ [now]))"

text \<open>
  A caller that makes one request after the other: each call of \<open>checkRateLimit\<close> starts at
  the given time, and its request is admitted when the call returns, that is after the
  delay, if any. \<open>admissions\<close> lists the times at which the requests are admitted.
\<close>

fun admissions :: "int \<Rightarrow> int list \<Rightarrow> int list \<Rightarrow> int list" where
  "admissions n requests [] = []"
| "admissions n requests (now # later) =
     (case checkRateLimit n now requests of
        (waitTime, requests') \<Rightarrow>
          (now + (case waitTime of None \<Rightarrow> 0 | Some d \<Rightarrow> d)) # admissions n requests' later)"

fun recorded :: "int \<Rightarrow> int list \<Rightarrow> int list \<Rightarrow> int list" where
  "recorded n requests [] = requests"
| "recorded n requests (now # later) = recorded n (snd (checkRateLimit n now requests)) later"

definition admittedWithin :: "int \<Rightarrow> int list \<Rightarrow> nat" where
  "admittedWithin start ts = length (filter (\<lambda>t. start \<le> t \<and> t < start + windowMs) ts)"

section \<open>TaggingService: applying tags\<close>

type_synonym tagId = string











section \<open>AutomationRule: canExecute, evaluateConditions, recordExecution\<close>

text \<open>
  Times are milliseconds since the epoch. The local calendar is that of a fixed offset
  \<open>tz\<close> (ms) from UTC: \<open>startOfDay\<close> is \<open>setHours(0, 0, 0, 0)\<close>, \<open>getDay\<close> and \<open>getHours\<close> are
  the methods of \<open>Date\<close> (day 0 is Sunday; the epoch fell on a Thursday).
\<close>

definition dayMs :: int where
  "dayMs = 86400000"

definition startOfDay :: "int \<Rightarrow> int \<Rightarrow> int" where
  "startOfDay tz now = now - ((now + tz) mod dayMs)"

definition getDay :: "int \<Rightarrow> int \<Rightarrow> nat" where
  "getDay tz now = nat (((now + tz) div dayMs + 4) mod 7)"

definition getHours :: "int \<Rightarrow> int \<Rightarrow> int" where
  "getHours tz now = ((now + tz) mod dayMs) div 3600000"

record executionRecord =
  orderId :: string
  executedAt :: int
  success :: bool
  duration :: real
  error :: "string option"
  actionsPerformed :: "string list"

text \<open>An absent (or \<open>undefined\<close>) field is \<open>None\<close>; a number is falsy when it is 0.\<close>

record limits =
  maxExecutions :: "int option"
  maxPerDay :: "int option"
  cooldownMinutes :: "int option"
  maxPerOrder :: "int option"

record stats =
  totalExecutions :: "int option"
  successfulExecutions :: "int option"
  failedExecutions :: "int option"
  lastExecuted :: "int option"
  ordersAffected :: "int option"
  lastSuccess :: "int option"
  lastError :: "string option"
  avgExecutionTime :: "real option"

record numRange =
  rmin :: "real option"
  rmax :: "real option"

record destination =
  countries :: "string list option"
  states :: "string list option"
  zips :: "string list option"
  residential :: "bool option"

record tagConditions =
  hasAll :: "string list option"
  hasAny :: "string list option"
  hasNone :: "string list option"

record hours =
  hstart :: "string option"
  hend :: "string option"

record timeRange =
  days :: "string list option"
  hours :: "hours option"

record conditions =
  orderValue :: "numRange option"
  weight :: "numRange option"
  itemCount :: "numRange option"
  destination :: "destination option"
  tags :: "tagConditions option"
  timeRange :: "timeRange option"

record address =
  addr_country :: "string option"
  addr_state :: "string option"
  addr_zip :: "string option"
  addr_residential :: "bool option"

record order =
  order_id :: string
  order_tags :: "string list option"
  totals_total :: "real option"
  totalWeight :: "real option"
  order_itemCount :: "real option"
  shippingAddress :: "address option"

record rule =
  rule_id :: string
  enabled :: bool
  trigger_conditions :: "conditions option"
  rule_limits :: "limits option"
  rule_stats :: "stats option"
  history :: "executionRecord list option"

definition orZero :: "int option \<Rightarrow> int" where
  "orZero v = (case v of None \<Rightarrow> 0 | Some n \<Rightarrow> n)"

definition truthy :: "int option \<Rightarrow> bool" where
  "truthy v = (case v of None \<Rightarrow> False | Some n \<Rightarrow> n \<noteq> 0)"

definition limitOf :: "rule \<Rightarrow> (limits \<Rightarrow> int option) \<Rightarrow> int option" where
  "limitOf r field = (case rule_limits r of None \<Rightarrow> None | Some l \<Rightarrow> field l)"

definition statOf :: "rule \<Rightarrow> (stats \<Rightarrow> 'a option) \<Rightarrow> 'a option" where
  "statOf r field = (case rule_stats r of None \<Rightarrow> None | Some s \<Rightarrow> field s)"

definition historyOf :: "rule \<Rightarrow> executionRecord list" where
  "historyOf r = (case history r of None \<Rightarrow> [] | Some h \<Rightarrow> h)"

text \<open>\<open>canExecute(order)\<close>, called when the clock reads \<open>now\<close>.\<close>

definition canExecute :: "rule \<Rightarrow> order \<Rightarrow> int \<Rightarrow> int \<Rightarrow> bool" where
  "canExecute r ord tz now =
     (if \<not> enabled r then False
      else if truthy (limitOf r maxExecutions)
              \<and> (case statOf r totalExecutions of None \<Rightarrow> False
                  | Some n \<Rightarrow> n \<ge> orZero (limitOf r maxExecutions)) then False
      else if truthy (limitOf r maxPerDay)
              \<and> int (length (filter (\<lambda>h. executedAt h \<ge> startOfDay tz now \<and> success h) (historyOf r)))
                    \<ge> orZero (limitOf r maxPerDay) then False
      else if truthy (limitOf r cooldownMinutes)
              \<and> (case statOf r lastExecuted of None \<Rightarrow> False
                  | Some t \<Rightarrow> now < t + orZero (limitOf r cooldownMinutes) * 60000) then False
      else if truthy (limitOf r maxPerOrder)
              \<and> int (length (filter (\<lambda>h. orderId h = order_id ord \<and> success h) (historyOf r)))
                    \<ge> orZero (limitOf r maxPerOrder) then False
      else True)"

text \<open>
  \<open>recordExecution\<close>, called when the clock reads \<open>now\<close>. The update is taken to be stored
  and read back as written (\<open>findByIdAndUpdate\<close> followed by \<open>Object.assign\<close>).
\<close>

definition emptyStats :: stats where
  "emptyStats = \<lparr>totalExecutions = None, successfulExecutions = None, failedExecutions = None,
     lastExecuted = None, ordersAffected = None, lastSuccess = None, lastError = None,
     avgExecutionTime = None\<rparr>"

definition recordExecution ::
  "rule \<Rightarrow> string \<Rightarrow> bool \<Rightarrow> real \<Rightarrow> string option \<Rightarrow> string list \<Rightarrow> int \<Rightarrow> rule" where
  "recordExecution r oid succ dur err performed now =
     (let old = (case rule_stats r of None \<Rightarrow> emptyStats | Some s \<Rightarrow> s);
          total = orZero (totalExecutions old) + 1;
          s1 = old\<lparr>totalExecutions := Some total,
                   successfulExecutions :=
                     Some (if succ then orZero (successfulExecutions old) + 1
                           else orZero (successfulExecutions old)),
                   failedExecutions :=
                     Some (if \<not> succ then orZero (failedExecutions old) + 1
                           else orZero (failedExecutions old)),
                   lastExecuted := Some now,
                   ordersAffected :=
                     Some (if succ then orZero (ordersAffected old) + 1
                           else orZero (ordersAffected old))\<rparr>;
          s2 = (if succ then s1\<lparr>lastSuccess := Some now\<rparr> else s1\<lparr>lastError := err\<rparr>);
          s3 = (if dur \<noteq> 0 then
                  (let prevAvg = (case avgExecutionTime old of None \<Rightarrow> 0 | Some a \<Rightarrow> a);
                       prevCount = (if truthy (totalExecutions old) then orZero (totalExecutions old) else 1) - 1
                   in s2\<lparr>avgExecutionTime := Some ((prevAvg * real_of_int prevCount + dur) / real_of_int total)\<rparr>)
                else s2);
          appended = historyOf r @
             [\<lparr>orderId = oid, executedAt = now, success = succ, duration = dur, error = err,
               actionsPerformed = performed\<rparr>];
          newHistory = drop (length appended - 100) appended
      in r\<lparr>rule_stats := Some s3, history := Some newHistory\<rparr>)"

text \<open>
  \<open>parseInt\<close>: leading white space, an optional sign, then the longest run of digits, in
  base 16 after \<open>0x\<close> and in base 10 otherwise; \<open>None\<close> is \<open>NaN\<close>.
\<close>

definition isSpace :: "char \<Rightarrow> bool" where
  "isSpace c = (c = CHR '' '' \<or> c = CHR 0x09 \<or> c = CHR 0x0A \<or> c = CHR 0x0B \<or> c = CHR 0x0C \<or> c = CHR 0x0D)"

definition digitOf :: "char \<Rightarrow> nat option" where
  "digitOf = map_of
     [(CHR ''0'', 0), (CHR ''1'', 1), (CHR ''2'', 2), (CHR ''3'', 3), (CHR ''4'', 4),
      (CHR ''5'', 5), (CHR ''6'', 6), (CHR ''7'', 7), (CHR ''8'', 8), (CHR ''9'', 9)]"

definition hexDigitOf :: "char \<Rightarrow> nat option" where
  "hexDigitOf c =
     (case digitOf c of
        Some d \<Rightarrow> Some d
      | None \<Rightarrow> map_of
         [(CHR ''a'', 10), (CHR ''b'', 11), (CHR ''c'', 12), (CHR ''d'', 13), (CHR ''e'', 14),
          (CHR ''f'', 15), (CHR ''A'', 10), (CHR ''B'', 11), (CHR ''C'', 12), (CHR ''D'', 13),
          (CHR ''E'', 14), (CHR ''F'', 15)] c)"

fun parseDigits :: "(char \<Rightarrow> nat option) \<Rightarrow> nat \<Rightarrow> string \<Rightarrow> nat option \<Rightarrow> nat option" where
  "parseDigits digit radix [] acc = acc"
| "parseDigits digit radix (c # cs) acc =
     (case digit c of
        None \<Rightarrow> acc
      | Some d \<Rightarrow> parseDigits digit radix cs (Some (radix * (case acc of None \<Rightarrow> 0 | Some a \<Rightarrow> a) + d)))"

definition parseUnsigned :: "string \<Rightarrow> nat option" where
  "parseUnsigned s =
     (case s of
        a # b # r \<Rightarrow>
          if a = CHR ''0'' \<and> (b = CHR ''x'' \<or> b = CHR ''X'') then parseDigits hexDigitOf 16 r None
          else parseDigits digitOf 10 s None
      | _ \<Rightarrow> parseDigits digitOf 10 s None)"

definition parseInt :: "string \<Rightarrow> int option" where
  "parseInt s =
     (case dropWhile isSpace s of
        [] \<Rightarrow> None
      | c # r \<Rightarrow>
          if c = CHR ''-'' then map_option (\<lambda>n. - int n) (parseUnsigned r)
          else if c = CHR ''+'' then map_option int (parseUnsigned r)
          else map_option int (parseUnsigned (c # r)))"

definition dayNames :: "string list" where
  "dayNames = [''sunday'', ''monday'', ''tuesday'', ''wednesday'', ''thursday'', ''friday'', ''saturday'']"

text \<open>
  The checks of \<open>evaluateConditions\<close>; each of the following is true when the source
  returns \<open>false\<close> at that check. A comparison with \<open>undefined\<close> or \<open>NaN\<close> is false.
\<close>

definition rangeFails :: "numRange \<Rightarrow> real option \<Rightarrow> bool" where
  "rangeFails rg v =
     ((case rmin rg of None \<Rightarrow> False
       | Some m \<Rightarrow> m \<noteq> 0 \<and> (case v of None \<Rightarrow> False | Some x \<Rightarrow> x < m))
      \<or> (case rmax rg of None \<Rightarrow> False
          | Some m \<Rightarrow> m \<noteq> 0 \<and> (case v of None \<Rightarrow> False | Some x \<Rightarrow> x > m)))"

definition orZeroR :: "real option \<Rightarrow> real option" where
  "orZeroR v = (case v of None \<Rightarrow> Some 0 | Some x \<Rightarrow> Some x)"

definition listExcludes :: "string list option \<Rightarrow> string option \<Rightarrow> bool" where
  "listExcludes xs v =
     (case xs of None \<Rightarrow> False
      | Some l \<Rightarrow> l \<noteq> [] \<and> (case v of None \<Rightarrow> True | Some x \<Rightarrow> x \<notin> set l))"

definition addrField :: "order \<Rightarrow> (address \<Rightarrow> 'a option) \<Rightarrow> 'a option" where
  "addrField ord field = (case shippingAddress ord of None \<Rightarrow> None | Some a \<Rightarrow> field a)"

definition destinationFails :: "destination \<Rightarrow> order \<Rightarrow> bool" where
  "destinationFails dest ord =
     (listExcludes (countries dest) (addrField ord addr_country)
      \<or> listExcludes (states dest) (addrField ord addr_state)
      \<or> listExcludes (zips dest) (addrField ord addr_zip)
      \<or> (case residential dest of None \<Rightarrow> False
          | Some b \<Rightarrow> addrField ord addr_residential \<noteq> Some b))"

definition tagsFail :: "tagConditions \<Rightarrow> order \<Rightarrow> bool" where
  "tagsFail tc ord =
     (let orderTags = (case order_tags ord of None \<Rightarrow> [] | Some ts \<Rightarrow> ts)
      in (case hasAll tc of None \<Rightarrow> False
          | Some l \<Rightarrow> l \<noteq> [] \<and> \<not> list_all (\<lambda>tagId. tagId \<in> set orderTags) l)
         \<or> (case hasAny tc of None \<Rightarrow> False
             | Some l \<Rightarrow> l \<noteq> [] \<and> \<not> list_ex (\<lambda>tagId. tagId \<in> set orderTags) l)
         \<or> (case hasNone tc of None \<Rightarrow> False
             | Some l \<Rightarrow> l \<noteq> [] \<and> list_ex (\<lambda>tagId. tagId \<in> set orderTags) l))"

datatype ruleError = TypeError

definition hourOf :: "string \<Rightarrow> int option" where
  "hourOf s = parseInt (takeWhile (\<lambda>c. c \<noteq> CHR '':'') s)"

definition timeCheck :: "timeRange \<Rightarrow> int \<Rightarrow> int \<Rightarrow> ruleError + bool" where
  "timeCheck tr tz now =
     (if (case days tr of None \<Rightarrow> False
          | Some l \<Rightarrow> l \<noteq> [] \<and> dayNames ! getDay tz now \<notin> set l) then Inr False
      else
        (case hours tr of
           None \<Rightarrow> Inr True
         | Some h \<Rightarrow>
             (case hstart h of
                None \<Rightarrow> Inl TypeError
              | Some s \<Rightarrow>
                  (case hend h of
                     None \<Rightarrow> Inl TypeError
                   | Some e \<Rightarrow>
                       if (case hourOf s of None \<Rightarrow> False | Some startHour \<Rightarrow> getHours tz now < startHour)
                          \<or> (case hourOf e of None \<Rightarrow> False | Some endHour \<Rightarrow> getHours tz now \<ge> endHour)
                       then Inr False else Inr True))))"

text \<open>\<open>evaluateConditions(order)\<close>, called when the clock reads \<open>now\<close>.\<close>

definition evaluateConditions :: "rule \<Rightarrow> order \<Rightarrow> int \<Rightarrow> int \<Rightarrow> ruleError + bool" where
  "evaluateConditions r ord tz now =
     (case trigger_conditions r of
        None \<Rightarrow> Inr True
      | Some c \<Rightarrow>
          if (case orderValue c of None \<Rightarrow> False | Some rg \<Rightarrow> rangeFails rg (totals_total ord))
          then Inr False
          else if (case weight c of None \<Rightarrow> False | Some rg \<Rightarrow> rangeFails rg (orZeroR (totalWeight ord)))
          then Inr False
          else if (case itemCount c of None \<Rightarrow> False
                   | Some rg \<Rightarrow> rangeFails rg (orZeroR (order_itemCount ord)))
          then Inr False
          else if (case destination c of None \<Rightarrow> False | Some dest \<Rightarrow> destinationFails dest ord)
          then Inr False
          else if (case tags c of None \<Rightarrow> False | Some tc \<Rightarrow> tagsFail tc ord)
          then Inr False
          else (case timeRange c of None \<Rightarrow> Inr True | Some tr \<Rightarrow> timeCheck tr tz now))"

subsection \<open>The rule engine's step\<close>

datatype outcome = Skipped | Executed | Errored

text \<open>
  Modelled from the spec: the rule engine's handling of one rule for one event (section 4.9);
  the engine that calls \<open>canExecute\<close>, \<open>evaluateConditions\<close> and \<open>recordExecution\<close> is not
  among the source files. A rule that fails the gate, or whose conditions are false, is
  skipped and nothing is recorded; otherwise the actions are executed and an execution
  record is written when they are done. \<open>exec\<close> is the action executor: it returns whether
  the actions succeeded, how long they took, the error if any and the actions performed.
  What the engine records when the conditions throw is not specified; the rule is left as
  it is.
\<close>

definition processRule ::
  "(order \<Rightarrow> bool \<times> real \<times> string option \<times> string list) \<Rightarrow> int \<Rightarrow> rule \<Rightarrow> order \<Rightarrow> int \<Rightarrow> int
     \<Rightarrow> rule \<times> outcome" where
  "processRule exec tz r ord now doneAt =
     (if \<not> canExecute r ord tz now then (r, Skipped)
      else
        (case evaluateConditions r ord tz now of
           Inl _ \<Rightarrow> (r, Errored)
         | Inr False \<Rightarrow> (r, Skipped)
         | Inr True \<Rightarrow>
             (case exec ord of
                (succ, dur, err, performed) \<Rightarrow>
                  (recordExecution r (order_id ord) succ dur err performed doneAt, Executed))))"


definition dailyRule :: rule where
  "dailyRule =
     \<lparr>rule_id = ''r1'', enabled = True, trigger_conditions = None,
      rule_limits = Some \<lparr>maxExecutions = None, maxPerDay = Some 1, cooldownMinutes = None,
                          maxPerOrder = None\<rparr>,
      rule_stats = None, history = None\<rparr>"



definition someOrder :: order where
  "someOrder = \<lparr>order_id = ''o1'', order_tags = Some [''vip'', ''express''], totals_total = Some 150,
     totalWeight = None, order_itemCount = None, shippingAddress = None\<rparr>"

definition succeeding :: "order \<Rightarrow> bool \<times> real \<times> string option \<times> string list" where
  "succeeding ord = (True, 12, None, [''tag''])"

definition failingActions :: "order \<Rightarrow> bool \<times> real \<times> string option \<times> string list" where
  "failingActions ord = (False, 12, Some ''carrier unavailable'', [])"

section \<open>retryWithBackoff\<close>

text \<open>
  \<open>await new Promise(resolve => setTimeout(resolve, d))\<close>: the clock has advanced by the
  delay (rounded up to a whole millisecond) when the code resumes.
\<close>

definition sleep :: "real \<Rightarrow> 'x world \<Rightarrow> 'x world" where
  "sleep d w = w\<lparr>clock := clock w + max 0 \<lceil>d\<rceil>, log := log w @ [Sleep d]\<rparr>"

text \<open>
  The loop of \<open>retryWithBackoff\<close> from iteration \<open>i\<close> on. \<open>rnd i\<close> is the value that
  \<open>Math.random()\<close> returns in iteration \<open>i\<close>. Beside the result (\<open>Inr None\<close> is the
  \<open>undefined\<close> returned when the loop ends without an attempt) and the world, the loop
  returns a trace of what it did: one \<open>Attempt\<close> per call of \<open>fn\<close>, one \<open>Wait\<close> per delay.
\<close>

datatype retryEvent = Attempt | Wait real

definition backoffDelay :: "real \<Rightarrow> (nat \<Rightarrow> real) \<Rightarrow> nat \<Rightarrow> real" where
  "backoffDelay baseDelay rnd i = baseDelay * 2 ^ i + rnd i * 1000"

function retryLoop ::
  "('a, 'x) action \<Rightarrow> int \<Rightarrow> real \<Rightarrow> (nat \<Rightarrow> real) \<Rightarrow> nat \<Rightarrow> 'x world
     \<Rightarrow> (thrown + 'a option) \<times> 'x world \<times> retryEvent list" where
  "retryLoop fn maxRetries baseDelay rnd i w =
     (if int i < maxRetries then
        (case fn w of
           (Inr v, w1) \<Rightarrow> (Inr (Some v), w1, [Attempt])
         | (Inl e, w1) \<Rightarrow>
             if int i = maxRetries - 1 then (Inl e, w1, [Attempt])
             else
               (case retryLoop fn maxRetries baseDelay rnd (Suc i)
                       (sleep (backoffDelay baseDelay rnd i) w1) of
                  (r, w2, tr) \<Rightarrow> (r, w2, Attempt # Wait (backoffDelay baseDelay rnd i) # tr)))
      else (Inr None, w, []))"
  by pat_completeness auto
termination
  by (relation "measure (\<lambda>(fn, maxRetries, baseDelay, rnd, i, w). nat (maxRetries - int i))") auto

definition retryWithBackoff ::
  "('a, 'x) action \<Rightarrow> int \<Rightarrow> real \<Rightarrow> (nat \<Rightarrow> real) \<Rightarrow> 'x world \<Rightarrow> (thrown + 'a option) \<times> 'x world" where
  "retryWithBackoff fn maxRetries baseDelay rnd w =
     (case retryLoop fn maxRetries baseDelay rnd 0 w of (r, w', tr) \<Rightarrow> (r, w'))"




declare retryLoop.simps [simp del]

section \<open>RobustSupabaseManager.executeWithResilience\<close>

text \<open>
  What an operation returns, as far as the wrapper reads it: \<open>Nullish\<close> is \<open>undefined\<close> or
  \<open>null\<close>; of any other value the wrapper reads the properties \<open>error\<close> and \<open>data\<close> (when
  truthy) and \<open>metadata.autoFixed\<close>, \<open>metadata.fixAction\<close>.
\<close>

datatype 'a jsvalue =
  Nullish
  | Value (res_error: "jserror option") (res_data: "'a option") (res_autoFixed: bool)
      (res_fixAction: "string option")

text \<open>
  A Supabase client: \<open>auth.refreshSession()\<close> (true when it resolves without an error), and
  the value of \<open>headers?.['retry-after']\<close> if it has one.
\<close>

record 'x client =
  refreshSession :: "'x world \<Rightarrow> bool \<times> 'x world"
  retryAfterHeader :: "real option"

type_synonym ('a, 'x) operation = "'x client \<Rightarrow> 'x world \<Rightarrow> (thrown + 'a jsvalue) \<times> 'x world"

text \<open>
  A call of an external collaborator (the operation, the session refresh): it may change
  the clock and the external state; the manager's metrics stay as they are and the call is
  entered in the log.
\<close>

definition external :: "event \<Rightarrow> ('x world \<Rightarrow> 'r \<times> 'x world) \<Rightarrow> 'x world \<Rightarrow> 'r \<times> 'x world" where
  "external ev f w = (case f w of (r, w') \<Rightarrow> (r, w'\<lparr>metrics := metrics w, log := log w @ [ev]\<rparr>))"

text \<open>
  \<open>autoFixStrategies[errorType](client, error)\<close>: \<open>None\<close> when there is no strategy for the
  type, otherwise \<open>fixed\<close> and \<open>action\<close>. The \<open>RATE_LIMITED\<close> strategy names its first
  parameter \<open>error\<close> but is passed the client first, so the header it reads is the client's.
\<close>

definition autoFix ::
  "errorType \<Rightarrow> 'x client \<Rightarrow> 'x world \<Rightarrow> (bool \<times> string) option \<times> 'x world" where
  "autoFix errorType cl w =
     (case errorType of
        AUTH_EXPIRED \<Rightarrow>
          (case external Refresh (refreshSession cl) w of
             (ok, w') \<Rightarrow> (Some (if ok then (True, ''TOKEN_REFRESHED'') else (False, ''REFRESH_FAILED'')), w'))
      | RATE_LIMITED \<Rightarrow>
          (let retryAfter = (case retryAfterHeader cl of None \<Rightarrow> 60 | Some h \<Rightarrow> if h = 0 then 60 else h)
           in (Some (True, ''RATE_LIMIT_WAITED''), sleep (retryAfter * 1000) w))
      | TEMPORARY_NETWORK \<Rightarrow> (Some (False, ''RETRY_REQUIRED''), w)
      | _ \<Rightarrow> (None, w))"

definition errorOf :: "'a jsvalue \<Rightarrow> jserror option" where
  "errorOf v = (case v of Nullish \<Rightarrow> None | Value err _ _ _ \<Rightarrow> err)"

text \<open>\<open>{...retryResult, metadata: {autoFixed: true, fixAction}}\<close>\<close>

definition withMetadata :: "'a jsvalue \<Rightarrow> string \<Rightarrow> 'a jsvalue" where
  "withMetadata v action =
     (case v of
        Nullish \<Rightarrow> Value None None True (Some action)
      | Value err dat _ _ \<Rightarrow> Value err dat True (Some action))"

definition typeError :: "string \<Rightarrow> jserror" where
  "typeError m = \<lparr>message = Some m, code = None, tostring = ''TypeError: '' @ m\<rparr>"

text \<open>
  \<open>classifyError(error)\<close> on what a \<open>catch\<close> block received: it starts by reading
  \<open>error.message\<close>, which throws a \<open>TypeError\<close> when the value is \<open>undefined\<close> or \<open>null\<close>.
\<close>

definition classifyThrown :: "thrown \<Rightarrow> jserror + errorType" where
  "classifyThrown t =
     (case t of
        ThrownNullish \<Rightarrow> Inl (typeError ''Cannot read properties of undefined (reading 'message')'')
      | Thrown err \<Rightarrow> Inr (classifyError err))"

definition countAutoFixed :: "'x world \<Rightarrow> 'x world" where
  "countAutoFixed w = w\<lparr>metrics := (metrics w)\<lparr>autoFixedRequests := autoFixedRequests (metrics w) + 1\<rparr>\<rparr>"

text \<open>
  The \<open>catch\<close> block of the function passed to \<open>retryWithBackoff\<close>. A \<open>TypeError\<close> thrown
  by \<open>classifyError\<close> leaves the block, as does whatever the second call of the operation
  throws.
\<close>

definition handleFailure ::
  "('a, 'x) operation \<Rightarrow> 'x client \<Rightarrow> thrown \<Rightarrow> 'x world \<Rightarrow> (thrown + 'a jsvalue) \<times> 'x world" where
  "handleFailure operation cl caught w =
     (case classifyThrown caught of
        Inl typeErr \<Rightarrow> (Inl (Thrown typeErr), w)
      | Inr errorType \<Rightarrow>
          (case autoFix errorType cl w of
             (Some (True, action), w1) \<Rightarrow>
               (case external Invoke (operation cl) (countAutoFixed w1) of
                  (Inl err2, w2) \<Rightarrow> (Inl err2, w2)
                | (Inr retryResult, w2) \<Rightarrow>
                    (case errorOf retryResult of
                       Some err2 \<Rightarrow> (Inl (Thrown err2), w2)
                     | None \<Rightarrow> (Inr (withMetadata retryResult action), w2)))
           | (_, w1) \<Rightarrow> (Inl caught, w1)))"

text \<open>The function passed to \<open>retryWithBackoff\<close>: one attempt at the operation.\<close>

definition attempt :: "('a, 'x) operation \<Rightarrow> 'x client \<Rightarrow> ('a jsvalue, 'x) action" where
  "attempt operation cl w =
     (case external Invoke (operation cl) w of
        (Inl caught, w1) \<Rightarrow> handleFailure operation cl caught w1
      | (Inr operationResult, w1) \<Rightarrow>
          (case errorOf operationResult of
             Some err \<Rightarrow> handleFailure operation cl (Thrown err) w1
           | None \<Rightarrow> (Inr operationResult, w1)))"

definition getUserFriendlyError :: "errorType \<Rightarrow> string" where
  "getUserFriendlyError errorType =
     (case errorType of
        AUTH_EXPIRED \<Rightarrow> ''Your session has expired. Please sign in again.''
      | RATE_LIMITED \<Rightarrow> ''Too many requests. Please wait a moment and try again.''
      | TEMPORARY_NETWORK \<Rightarrow> ''Connection issue. Please check your internet and try again.''
      | SERVICE_DOWN \<Rightarrow> ''Service is temporarily unavailable. Please try again later.''
      | DATA_VALIDATION \<Rightarrow> ''Invalid data provided. Please check your input.''
      | NOT_FOUND \<Rightarrow> ''The requested resource was not found.''
      | PERMISSION_DENIED \<Rightarrow> ''You don't have permission to perform this action.''
      | UNKNOWN_ERROR \<Rightarrow> ''An unexpected error occurred. Please try again.'')"

text \<open>The object \<open>executeWithResilience\<close> returns.\<close>

datatype 'a payload = Data 'a | Whole "'a jsvalue"

datatype 'a response =
  Success (resp_data: "'a payload") (resp_duration: int) (resp_autoFixed: bool)
    (resp_fixAction: "string option")
  | Failure (resp_message: "string option") (resp_type: errorType) (resp_details: jserror)
      (resp_userFriendlyMessage: string) (resp_duration: int)

record 'x manager =
  config_maxRetries :: int
  config_baseDelay :: real
  circuitBreakers :: "string \<rightharpoonup> CircuitBreaker"
  anonClient :: "'x client"
  serviceClient :: "'x client option"

definition clientNotInitialized :: jserror where
  "clientNotInitialized =
     \<lparr>message = Some ''Supabase client not initialized'', code = None,
      tostring = ''Error: Supabase client not initialized''\<rparr>"

definition countFailed :: "'x world \<Rightarrow> 'x world" where
  "countFailed w = w\<lparr>metrics := (metrics w)\<lparr>failedRequests := failedRequests (metrics w) + 1\<rparr>\<rparr>"

definition countSuccessful :: "'x world \<Rightarrow> 'x world" where
  "countSuccessful w =
     w\<lparr>metrics := (metrics w)\<lparr>successfulRequests := successfulRequests (metrics w) + 1\<rparr>\<rparr>"

definition countRequest :: "'x world \<Rightarrow> 'x world" where
  "countRequest w = w\<lparr>metrics := (metrics w)\<lparr>totalRequests := totalRequests (metrics w) + 1\<rparr>\<rparr>"

text \<open>
  The \<open>catch\<close> block of \<open>executeWithResilience\<close>: it counts the failure, classifies the
  error and returns the failure object. \<open>Inl\<close> is the \<open>TypeError\<close> that \<open>classifyError\<close>
  throws, inside the \<open>catch\<close> block, when the value caught is \<open>undefined\<close> or \<open>null\<close>.
\<close>

definition catchBlock :: "int \<Rightarrow> thrown \<Rightarrow> 'x world \<Rightarrow> (thrown + 'a response) \<times> 'x world" where
  "catchBlock startTime caught w =
     (let w1 = countFailed w
      in case classifyThrown caught of
           Inl typeErr \<Rightarrow> (Inl (Thrown typeErr), w1)
         | Inr errorType \<Rightarrow>
             (case caught of
                Thrown err \<Rightarrow>
                  (Inr (Failure (message err) errorType err (getUserFriendlyError errorType)
                          (clock w1 - startTime)), w1)
              | ThrownNullish \<Rightarrow> (Inl ThrownNullish, w1)))"

text \<open>
  \<open>executeWithResilience(type, operation, options)\<close>. \<open>Inl\<close> is an exception that reaches the
  caller. Reading a property of \<open>undefined\<close> inside the \<open>try\<close> block (an unknown \<open>type\<close>, a
  nullish result) throws a \<open>TypeError\<close> that the \<open>catch\<close> block receives.
\<close>

definition executeWithResilience ::
  "'x manager \<Rightarrow> string \<Rightarrow> ('a, 'x) operation \<Rightarrow> bool \<Rightarrow> (nat \<Rightarrow> real) \<Rightarrow> 'x world
     \<Rightarrow> (thrown + 'a response) \<times> 'x manager \<times> 'x world" where
  "executeWithResilience m type operation useServiceRole rnd w =
     (let w0 = countRequest w;
          startTime = clock w0
      in case (if useServiceRole then serviceClient m else Some (anonClient m)) of
           None \<Rightarrow> (Inl (Thrown clientNotInitialized), m, w0)
         | Some cl \<Rightarrow>
             (case circuitBreakers m type of
                None \<Rightarrow>
                  (case catchBlock startTime
                          (Thrown (typeError ''Cannot read properties of undefined (reading 'execute')'')) w0 of
                     (resp, w1) \<Rightarrow> (resp, m, w1))
              | Some cb \<Rightarrow>
                  (case execute cb (retryWithBackoff (attempt operation cl) (config_maxRetries m)
                                      (config_baseDelay m) rnd) w0 of
                     (Inl caught, cb', w1) \<Rightarrow>
                       (case catchBlock startTime caught w1 of
                          (resp, w2) \<Rightarrow> (resp, m\<lparr>circuitBreakers := (circuitBreakers m)(type \<mapsto> cb')\<rparr>, w2))
                   | (Inr result, cb', w1) \<Rightarrow>
                       (let m' = m\<lparr>circuitBreakers := (circuitBreakers m)(type \<mapsto> cb')\<rparr>;
                            w2 = countSuccessful w1
                        in case result of
                             Some (Value err dat fixed action) \<Rightarrow>
                               (Inr (Success (case dat of None \<Rightarrow> Whole (Value err dat fixed action)
                                              | Some d \<Rightarrow> Data d)
                                       (clock w2 - startTime) fixed action), m', w2)
                           | _ \<Rightarrow>
                               (case catchBlock startTime
                                       (Thrown (typeError ''Cannot read properties of undefined (reading 'data')'')) w2 of
                                  (resp, w3) \<Rightarrow> (resp, m', w3))))))"












definition refreshingN :: "nat client" where
  "refreshingN = \<lparr>refreshSession = (\<lambda>w. (True, w)), retryAfterHeader = None\<rparr>"

definition managerN :: "nat manager" where
  "managerN =
     \<lparr>config_maxRetries = 3, config_baseDelay = 1000,
      circuitBreakers = [''query'' \<mapsto> newCircuitBreaker 5 60000],
      anonClient = refreshingN, serviceClient = None\<rparr>"

definition w0N :: "nat world" where
  "w0N = \<lparr>clock = 100, ext = 0, metrics = noMetrics, log = []\<rparr>"

text \<open>
  An operation whose odd calls fail with status 401 and whose even calls reject without a
  reason (\<open>Promise.reject()\<close>).
\<close>

definition expiredThenRejecting :: "(nat, nat) operation" where
  "expiredThenRejecting cl w =
     (if even (ext w) then (Inl (Thrown (mkError ''401'')), w\<lparr>ext := ext w + 1\<rparr>)
      else (Inl ThrownNullish, w\<lparr>ext := ext w + 1\<rparr>))"

section \<open>CircuitBreaker: opening and failing fast\<close>

lemma failed_step:
  assumes "reachesTransport cb w" and "isl (fst (fn w))"
  shows "failureCount (fst (snd (execute cb fn w))) = failureCount cb + 1
    \<and> threshold (fst (snd (execute cb fn w))) = threshold cb
    \<and> timeout (fst (snd (execute cb fn w))) = timeout cb
    \<and> (threshold cb \<le> failureCount cb + 1 \<longrightarrow> state (fst (snd (execute cb fn w))) = OPEN)"
  using assms
  by (auto simp: execute_def callThrough_def reachesTransport_def onFailure_def Let_def
           split: prod.splits sum.splits if_splits)

lemma failed_run:
  assumes "failedCallThroughs cb calls"
  shows "failureCount (runCalls cb calls) = failureCount cb + int (length calls)
       \<and> threshold (runCalls cb calls) = threshold cb
       \<and> timeout (runCalls cb calls) = timeout cb
       \<and> (calls \<noteq> [] \<longrightarrow> threshold cb \<le> failureCount cb + int (length calls) \<longrightarrow> state (runCalls cb calls) = OPEN)"
  using assms
proof (induction calls arbitrary: cb)
  case Nil
  then show ?case by simp
next
  case (Cons c cs)
  obtain fn w where c: "c = (fn, w)" by (cases c)
  let ?cb1 = "fst (snd (execute cb fn w))"
  from Cons.prems c have r: "reachesTransport cb w" and f: "isl (fst (fn w))"
    and rest: "failedCallThroughs ?cb1 cs" by simp_all
  note st = failed_step[where cb=cb and w=w and fn=fn, OF r f]
  from Cons.IH[OF rest] st have
    a: "failureCount (runCalls ?cb1 cs) = failureCount cb + 1 + int (length cs)"
    and b: "threshold (runCalls ?cb1 cs) = threshold cb"
    and d: "timeout (runCalls ?cb1 cs) = timeout cb"
    and e: "cs \<noteq> [] \<longrightarrow> threshold cb \<le> failureCount cb + 1 + int (length cs) \<longrightarrow> state (runCalls ?cb1 cs) = OPEN"
    by simp_all
  show ?case
  proof (cases cs)
    case Nil
    with st c show ?thesis by simp
  next
    case (Cons c' cs')
    with a b d e c show ?thesis by simp
  qed
qed

lemma rejected_calls_keep_state:
  assumes "state cb = OPEN"
    and "list_all (\<lambda>(fn, w). sinceLastFailure cb (clock w) \<le> timeout cb) later"
  shows "runCalls cb later = cb"
  using assms(2)
proof (induction later)
  case Nil
  then show ?case by simp
next
  case (Cons c later)
  obtain fn w where c: "c = (fn, w)" by (cases c)
  with Cons.prems have "sinceLastFailure cb (clock w) \<le> timeout cb" by simp
  with assms(1) have "execute cb fn w = (Inl (Thrown circuitOpenError), cb, w)"
    by (simp add: execute_def)
  with Cons c show ?case by simp
qed

text \<open>
  Claim C2. A breaker in state \<open>CLOSED\<close> with a positive threshold is \<open>OPEN\<close> after
  \<open>threshold\<close> consecutive calls that reached the transport and failed. From then on every
  \<open>execute\<close> made while \<open>now - lastFailureTime\<close> has not exceeded \<open>timeout\<close> returns the
  circuit-open error whatever the transport is, leaving breaker and world as they were (the
  transport is not applied), so that any number of such calls in a row is rejected; the
  transport is applied again, in state \<open>HALF_OPEN\<close>, only when
  \<open>now - lastFailureTime > timeout\<close>.
\<close>

theorem circuit_opens_after_threshold_failures:
  assumes "state cb = CLOSED" and "0 \<le> failureCount cb" and "1 \<le> threshold cb"
    and "length calls = nat (threshold cb)" and "failedCallThroughs cb calls"
  shows "state (runCalls cb calls) = OPEN \<and>
         (\<forall>fn w. execute (runCalls cb calls) fn w =
            (if sinceLastFailure (runCalls cb calls) (clock w) > timeout cb
             then callThrough ((runCalls cb calls)\<lparr>state := HALF_OPEN\<rparr>) fn w
             else (Inl (Thrown circuitOpenError), runCalls cb calls, w)))
       \<and> (\<forall>later.
            list_all (\<lambda>(fn, w). sinceLastFailure (runCalls cb calls) (clock w) \<le> timeout cb) later
            \<longrightarrow> runCalls (runCalls cb calls) later = runCalls cb calls)"
proof -
  from assms(3,4) have ne: "calls \<noteq> []" by auto
  from assms(2,3,4) have le: "threshold cb \<le> failureCount cb + int (length calls)" by simp
  from failed_run[OF assms(5)] ne le have op: "state (runCalls cb calls) = OPEN"
    and tm: "timeout (runCalls cb calls) = timeout cb" by simp_all
  have stays: "list_all (\<lambda>(fn, w). sinceLastFailure (runCalls cb calls) (clock w) \<le> timeout cb) later
      \<Longrightarrow> runCalls (runCalls cb calls) later = runCalls cb calls" for later
    using rejected_calls_keep_state[OF op, of later] by (simp add: tm)
  have rejects: "execute (runCalls cb calls) fn w =
      (if sinceLastFailure (runCalls cb calls) (clock w) > timeout cb
       then callThrough (runCalls cb calls \<lparr>state := HALF_OPEN\<rparr>) fn w
       else (Inl (Thrown circuitOpenError), runCalls cb calls, w))" for fn w
    using op tm by (simp add: execute_def)
  from op rejects stays show ?thesis by blast
qed

theorem circuit_opens_after_threshold_failures_witness:
  "state (newCircuitBreaker 2 1000) = CLOSED \<and> 0 \<le> failureCount (newCircuitBreaker 2 1000)
   \<and> 1 \<le> threshold (newCircuitBreaker 2 1000)
   \<and> length [(failing, w0), (failing, w0\<lparr>clock := 200\<rparr>)] = nat (threshold (newCircuitBreaker 2 1000))
   \<and> failedCallThroughs (newCircuitBreaker 2 1000) [(failing, w0), (failing, w0\<lparr>clock := 200\<rparr>)]
   \<and> state (runCalls (newCircuitBreaker 2 1000) [(failing, w0), (failing, w0\<lparr>clock := 200\<rparr>)]) = OPEN
   \<and> execute (runCalls (newCircuitBreaker 2 1000) [(failing, w0), (failing, w0\<lparr>clock := 200\<rparr>)]) failing (w0\<lparr>clock := 1205\<rparr>)
       = (Inl (Thrown circuitOpenError), runCalls (newCircuitBreaker 2 1000) [(failing, w0), (failing, w0\<lparr>clock := 200\<rparr>)], w0\<lparr>clock := 1205\<rparr>)
   \<and> list_all (\<lambda>(fn, w). sinceLastFailure (runCalls (newCircuitBreaker 2 1000) [(failing, w0), (failing, w0\<lparr>clock := 200\<rparr>)]) (clock w)
                   \<le> timeout (newCircuitBreaker 2 1000))
        [(failing, w0\<lparr>clock := 300\<rparr>), (failing, w0\<lparr>clock := 700\<rparr>), (failing, w0\<lparr>clock := 1205\<rparr>)]
   \<and> runCalls (runCalls (newCircuitBreaker 2 1000) [(failing, w0), (failing, w0\<lparr>clock := 200\<rparr>)])
        [(failing, w0\<lparr>clock := 300\<rparr>), (failing, w0\<lparr>clock := 700\<rparr>), (failing, w0\<lparr>clock := 1205\<rparr>)]
       = runCalls (newCircuitBreaker 2 1000) [(failing, w0), (failing, w0\<lparr>clock := 200\<rparr>)]"
proof -
  let ?cb = "newCircuitBreaker 2 1000"
  let ?calls = "[(failing, w0), (failing, w0\<lparr>clock := 200\<rparr>)]"
  have h1: "state ?cb = CLOSED" by (simp add: newCircuitBreaker_def)
  have h2: "0 \<le> failureCount ?cb" by (simp add: newCircuitBreaker_def)
  have h3: "1 \<le> threshold ?cb" by (simp add: newCircuitBreaker_def)
  have h4: "length ?calls = nat (threshold ?cb)" by (simp add: newCircuitBreaker_def)
  have h5: "failedCallThroughs ?cb ?calls"
    by (simp add: newCircuitBreaker_def failing_def w0_def reachesTransport_def execute_def
        callThrough_def onFailure_def Let_def)
  have run: "runCalls ?cb ?calls =
      \<lparr>failureCount = 2, threshold = 2, timeout = 1000, state = OPEN, lastFailureTime = Some 205\<rparr>"
    by (simp add: newCircuitBreaker_def failing_def w0_def execute_def
        callThrough_def onFailure_def Let_def)
  have lf: "\<not> sinceLastFailure (runCalls ?cb ?calls) (clock (w0\<lparr>clock := 1205\<rparr>)) > timeout ?cb"
    unfolding run by (simp add: sinceLastFailure_def newCircuitBreaker_def)
  let ?later = "[(failing, w0\<lparr>clock := 300\<rparr>), (failing, w0\<lparr>clock := 700\<rparr>), (failing, w0\<lparr>clock := 1205\<rparr>)]"
  have h6: "list_all (\<lambda>(fn, w). sinceLastFailure (runCalls ?cb ?calls) (clock w) \<le> timeout ?cb) ?later"
    unfolding run by (simp add: sinceLastFailure_def newCircuitBreaker_def)
  from circuit_opens_after_threshold_failures[OF h1 h2 h3 h4 h5]
  have "state (runCalls ?cb ?calls) = OPEN"
    and "execute (runCalls ?cb ?calls) failing (w0\<lparr>clock := 1205\<rparr>) =
            (if sinceLastFailure (runCalls ?cb ?calls) (clock (w0\<lparr>clock := 1205\<rparr>)) > timeout ?cb
             then callThrough ((runCalls ?cb ?calls)\<lparr>state := HALF_OPEN\<rparr>) failing (w0\<lparr>clock := 1205\<rparr>)
             else (Inl (Thrown circuitOpenError), runCalls ?cb ?calls, w0\<lparr>clock := 1205\<rparr>))"
    and "list_all (\<lambda>(fn, w). sinceLastFailure (runCalls ?cb ?calls) (clock w) \<le> timeout ?cb) ?later
         \<longrightarrow> runCalls (runCalls ?cb ?calls) ?later = runCalls ?cb ?calls"
    by blast+
  with lf h1 h2 h3 h4 h5 h6 show ?thesis by simp
qed

section \<open>classifyError: the first listed match decides\<close>

lemma matchHere_lit_prefix:
  "matchHere (lit t @ rest) (map upper t @ q) = matchHere rest q"
  by (induction t) (simp_all add: lit_def)

lemma search_lit: "search (lit t) (p @ map upper t @ q)"
proof (induction p)
  case Nil
  have "matchHere (lit t @ []) (map upper t @ q)"
    by (simp only: matchHere_lit_prefix matchHere.simps)
  then have "matchHere (lit t) (map upper t @ q)" by simp
  then show ?case by (cases "map upper t @ q") auto
next
  case (Cons a p)
  then show ?case by simp
qed

lemma containsCI_test:
  "containsCI t s \<Longrightarrow> lit t \<in> set pat \<Longrightarrow> test pat s"
  unfolding containsCI_def test_def list_ex_iff using search_lit by metis

lemma indicates_matchesType:
  "indicates t e \<Longrightarrow> lit t \<in> set (patternOf ty) \<Longrightarrow> matchesType ty e"
  unfolding indicates_def matchesType_def using containsCI_test by blast

lemma classifyError_chain:
  "classifyError e =
    (if matchesType AUTH_EXPIRED e then AUTH_EXPIRED
     else if matchesType RATE_LIMITED e then RATE_LIMITED
     else if matchesType TEMPORARY_NETWORK e then TEMPORARY_NETWORK
     else if matchesType SERVICE_DOWN e then SERVICE_DOWN
     else if matchesType DATA_VALIDATION e then DATA_VALIDATION
     else if matchesType NOT_FOUND e then NOT_FOUND
     else if matchesType PERMISSION_DENIED e then PERMISSION_DENIED
     else UNKNOWN_ERROR)"
  by (simp add: classifyError_def matchesType_def patternOf_def patterns_def)

lemma lit_in:
  "lit ''401'' \<in> set (patternOf AUTH_EXPIRED)"
  "lit ''429'' \<in> set (patternOf RATE_LIMITED)"
  "lit ''timeout'' \<in> set (patternOf TEMPORARY_NETWORK)"
  "lit ''ECONNRESET'' \<in> set (patternOf TEMPORARY_NETWORK)"
  "lit ''502'' \<in> set (patternOf SERVICE_DOWN)"
  "lit ''503'' \<in> set (patternOf SERVICE_DOWN)"
  "lit ''504'' \<in> set (patternOf SERVICE_DOWN)"
  "lit ''400'' \<in> set (patternOf DATA_VALIDATION)"
  "lit ''404'' \<in> set (patternOf NOT_FOUND)"
  "lit ''403'' \<in> set (patternOf PERMISSION_DENIED)"
  by (simp_all add: patternOf_def patterns_def)

text \<open>
  Claim C7, as amended. The classifier returns one type for every error, decided by the
  first expression, in the listed order, that matches the error string or the code: an
  error indicating 401 is \<open>AUTH_EXPIRED\<close>; one indicating 429 is \<open>RATE_LIMITED\<close> unless
  the \<open>AUTH_EXPIRED\<close> expression matches too; timeout or connection reset is
  \<open>TEMPORARY_NETWORK\<close>, 502/503/504 is \<open>SERVICE_DOWN\<close>, 400 is \<open>DATA_VALIDATION\<close>, 404 is
  \<open>NOT_FOUND\<close> and 403 is \<open>PERMISSION_DENIED\<close>, each unless an expression listed earlier
  matches; the result is \<open>UNKNOWN_ERROR\<close> exactly when no expression matches.
\<close>

theorem classifyError_first_listed_match:
  "(indicates ''401'' e \<longrightarrow> classifyError e = AUTH_EXPIRED)
   \<and> (indicates ''429'' e \<and> \<not> matchesAny [AUTH_EXPIRED] e \<longrightarrow> classifyError e = RATE_LIMITED)
   \<and> ((indicates ''timeout'' e \<or> indicates ''ECONNRESET'' e)
        \<and> \<not> matchesAny [AUTH_EXPIRED, RATE_LIMITED] e \<longrightarrow> classifyError e = TEMPORARY_NETWORK)
   \<and> ((indicates ''502'' e \<or> indicates ''503'' e \<or> indicates ''504'' e)
        \<and> \<not> matchesAny [AUTH_EXPIRED, RATE_LIMITED, TEMPORARY_NETWORK] e
        \<longrightarrow> classifyError e = SERVICE_DOWN)
   \<and> (indicates ''400'' e
        \<and> \<not> matchesAny [AUTH_EXPIRED, RATE_LIMITED, TEMPORARY_NETWORK, SERVICE_DOWN] e
        \<longrightarrow> classifyError e = DATA_VALIDATION)
   \<and> (indicates ''404'' e
        \<and> \<not> matchesAny [AUTH_EXPIRED, RATE_LIMITED, TEMPORARY_NETWORK, SERVICE_DOWN, DATA_VALIDATION] e
        \<longrightarrow> classifyError e = NOT_FOUND)
   \<and> (indicates ''403'' e
        \<and> \<not> matchesAny [AUTH_EXPIRED, RATE_LIMITED, TEMPORARY_NETWORK, SERVICE_DOWN,
                           DATA_VALIDATION, NOT_FOUND] e
        \<longrightarrow> classifyError e = PERMISSION_DENIED)
   \<and> (\<not> matchesAny [AUTH_EXPIRED, RATE_LIMITED, TEMPORARY_NETWORK, SERVICE_DOWN,
                       DATA_VALIDATION, NOT_FOUND, PERMISSION_DENIED] e
        \<longleftrightarrow> classifyError e = UNKNOWN_ERROR)"
  using indicates_matchesType[OF _ lit_in(1), of e] indicates_matchesType[OF _ lit_in(2), of e]
    indicates_matchesType[OF _ lit_in(3), of e] indicates_matchesType[OF _ lit_in(4), of e]
    indicates_matchesType[OF _ lit_in(5), of e] indicates_matchesType[OF _ lit_in(6), of e]
    indicates_matchesType[OF _ lit_in(7), of e] indicates_matchesType[OF _ lit_in(8), of e]
    indicates_matchesType[OF _ lit_in(9), of e] indicates_matchesType[OF _ lit_in(10), of e]
  by (auto simp: classifyError_chain matchesAny_def)

lemma upper_digits:
  "upper CHR ''0'' = 48" "upper CHR ''1'' = 49" "upper CHR ''2'' = 50" "upper CHR ''3'' = 51"
  "upper CHR ''4'' = 52" "upper CHR ''5'' = 53" "upper CHR ''6'' = 54" "upper CHR ''7'' = 55"
  "upper CHR ''8'' = 56" "upper CHR ''9'' = 57" "upper CHR '' '' = 32" "upper CHR ''-'' = 45"
  by (simp_all add: upper_def)

lemma upper_lower:
  "upper CHR ''a'' = 65" "upper CHR ''b'' = 66" "upper CHR ''c'' = 67" "upper CHR ''d'' = 68"
  "upper CHR ''e'' = 69" "upper CHR ''f'' = 70" "upper CHR ''g'' = 71" "upper CHR ''h'' = 72"
  "upper CHR ''i'' = 73" "upper CHR ''j'' = 74" "upper CHR ''k'' = 75" "upper CHR ''l'' = 76"
  "upper CHR ''m'' = 77" "upper CHR ''n'' = 78" "upper CHR ''o'' = 79" "upper CHR ''p'' = 80"
  "upper CHR ''q'' = 81" "upper CHR ''r'' = 82" "upper CHR ''s'' = 83" "upper CHR ''t'' = 84"
  "upper CHR ''u'' = 85" "upper CHR ''v'' = 86" "upper CHR ''w'' = 87" "upper CHR ''x'' = 88"
  "upper CHR ''y'' = 89" "upper CHR ''z'' = 90"
  by (simp_all add: upper_def)

lemma upper_upper:
  "upper CHR ''A'' = 65" "upper CHR ''B'' = 66" "upper CHR ''C'' = 67" "upper CHR ''D'' = 68"
  "upper CHR ''E'' = 69" "upper CHR ''F'' = 70" "upper CHR ''G'' = 71" "upper CHR ''H'' = 72"
  "upper CHR ''I'' = 73" "upper CHR ''J'' = 74" "upper CHR ''K'' = 75" "upper CHR ''L'' = 76"
  "upper CHR ''M'' = 77" "upper CHR ''N'' = 78" "upper CHR ''O'' = 79" "upper CHR ''P'' = 80"
  "upper CHR ''Q'' = 81" "upper CHR ''R'' = 82" "upper CHR ''S'' = 83" "upper CHR ''T'' = 84"
  "upper CHR ''U'' = 85" "upper CHR ''V'' = 86" "upper CHR ''W'' = 87" "upper CHR ''X'' = 88"
  "upper CHR ''Y'' = 89" "upper CHR ''Z'' = 90"
  by (simp_all add: upper_def)

lemmas classify_eval = classifyError_def mkError_def statusError_def errorString_def codeString_def patterns_def
  test_def lit_def upper_digits upper_lower upper_upper lineTerminator_def matchesAny_def matchesType_def patternOf_def

lemma containsCI_append: "containsCI t (a @ t @ b)"
  unfolding containsCI_def by (rule exI[of _ "map upper a"], rule exI[of _ "map upper b"]) simp

lemma indicates_statusError: "indicates c (statusError c)"
proof -
  have "containsCI c (''Request failed with status code '' @ c @ [])"
    by (rule containsCI_append)
  then have "containsCI c (errorString (statusError c))"
    by (simp add: statusError_def mkError_def errorString_def)
  then show ?thesis by (simp add: indicates_def)
qed

theorem classifyError_first_listed_match_witness:
  "classifyError (statusError ''401'') = AUTH_EXPIRED
   \<and> classifyError (statusError ''429'') = RATE_LIMITED
   \<and> classifyError (statusError ''timeout'') = TEMPORARY_NETWORK
   \<and> classifyError (statusError ''503'') = SERVICE_DOWN
   \<and> classifyError (statusError ''400'') = DATA_VALIDATION
   \<and> classifyError (statusError ''404'') = NOT_FOUND
   \<and> classifyError (statusError ''403'') = PERMISSION_DENIED
   \<and> classifyError (mkError ''Bad Gateway'') = UNKNOWN_ERROR"
proof -
  have n2: "\<not> matchesAny [AUTH_EXPIRED] (statusError ''429'')" by (simp add: classify_eval)
  have n3: "\<not> matchesAny [AUTH_EXPIRED, RATE_LIMITED] (statusError ''timeout'')" by (simp add: classify_eval)
  have n4: "\<not> matchesAny [AUTH_EXPIRED, RATE_LIMITED, TEMPORARY_NETWORK] (statusError ''503'')"
    by (simp add: classify_eval)
  have n5: "\<not> matchesAny [AUTH_EXPIRED, RATE_LIMITED, TEMPORARY_NETWORK, SERVICE_DOWN]
              (statusError ''400'')" by (simp add: classify_eval)
  have n6: "\<not> matchesAny [AUTH_EXPIRED, RATE_LIMITED, TEMPORARY_NETWORK, SERVICE_DOWN,
              DATA_VALIDATION] (statusError ''404'')" by (simp add: classify_eval)
  have n7: "\<not> matchesAny [AUTH_EXPIRED, RATE_LIMITED, TEMPORARY_NETWORK, SERVICE_DOWN,
              DATA_VALIDATION, NOT_FOUND] (statusError ''403'')" by (simp add: classify_eval)
  have n8: "\<not> matchesAny [AUTH_EXPIRED, RATE_LIMITED, TEMPORARY_NETWORK, SERVICE_DOWN,
              DATA_VALIDATION, NOT_FOUND, PERMISSION_DENIED] (mkError ''Bad Gateway'')" by (simp add: classify_eval)
  note T = classifyError_first_listed_match
  note I = indicates_statusError
  have c1: "classifyError (statusError ''401'') = AUTH_EXPIRED"
    by (rule T[of "statusError ''401''", THEN conjunct1, THEN mp, OF I])
  have c2: "classifyError (statusError ''429'') = RATE_LIMITED"
    by (rule T[of "statusError ''429''", THEN conjunct2, THEN conjunct1, THEN mp,
          OF conjI[OF I n2]])
  have c3: "classifyError (statusError ''timeout'') = TEMPORARY_NETWORK"
    by (rule T[of "statusError ''timeout''", THEN conjunct2, THEN conjunct2, THEN conjunct1,
          THEN mp, OF conjI[OF disjI1[OF I] n3]])
  have c4: "classifyError (statusError ''503'') = SERVICE_DOWN"
    by (rule T[of "statusError ''503''", THEN conjunct2, THEN conjunct2, THEN conjunct2,
          THEN conjunct1, THEN mp, OF conjI[OF disjI2[OF disjI1[OF I]] n4]])
  have c5: "classifyError (statusError ''400'') = DATA_VALIDATION"
    by (rule T[of "statusError ''400''", THEN conjunct2, THEN conjunct2, THEN conjunct2,
          THEN conjunct2, THEN conjunct1, THEN mp, OF conjI[OF I n5]])
  have c6: "classifyError (statusError ''404'') = NOT_FOUND"
    by (rule T[of "statusError ''404''", THEN conjunct2, THEN conjunct2, THEN conjunct2,
          THEN conjunct2, THEN conjunct2, THEN conjunct1, THEN mp, OF conjI[OF I n6]])
  have c7: "classifyError (statusError ''403'') = PERMISSION_DENIED"
    by (rule T[of "statusError ''403''", THEN conjunct2, THEN conjunct2, THEN conjunct2,
          THEN conjunct2, THEN conjunct2, THEN conjunct2, THEN conjunct1, THEN mp,
          OF conjI[OF I n7]])
  have c8: "classifyError (mkError ''Bad Gateway'') = UNKNOWN_ERROR"
    by (rule T[of "mkError ''Bad Gateway''", THEN conjunct2, THEN conjunct2, THEN conjunct2,
          THEN conjunct2, THEN conjunct2, THEN conjunct2, THEN conjunct2, THEN iffD1, OF n8])
  from c1 c2 c3 c4 c5 c6 c7 c8 show ?thesis by (intro conjI)
qed

text \<open>
  The claim as stated fails where two listed indications meet: the reason phrase of a 504
  response names a timeout, and the \<open>TEMPORARY_NETWORK\<close> expression is tried before the
  \<open>SERVICE_DOWN\<close> one.
\<close>

theorem classifyError_504_counterexample:
  "indicates ''504'' (mkError ''504 Gateway Timeout'')
   \<and> classifyError (mkError ''504 Gateway Timeout'') = TEMPORARY_NETWORK"
proof -
  have "containsCI ''504'' ([] @ ''504'' @ '' Gateway Timeout'')"
    by (rule containsCI_append)
  then have "containsCI ''504'' (errorString (mkError ''504 Gateway Timeout''))"
    by (simp add: mkError_def errorString_def)
  then have "indicates ''504'' (mkError ''504 Gateway Timeout'')"
    by (simp add: indicates_def)
  moreover have "classifyError (mkError ''504 Gateway Timeout'') = TEMPORARY_NETWORK"
    by (simp add: classify_eval)
  ultimately show ?thesis by (rule conjI)
qed

section \<open>checkRateLimit: the recorded timestamp is not the admission time\<close>

text \<open>
  Claim C5 asks that no 60-second window admits more than \<open>requestsPerMinute\<close> calls. The
  code stores \<open>now\<close>, read before the wait, as the timestamp of a call it admits only after
  the wait. With a limit of 1 and calls starting at 0, 1 and 60000 ms: the second call waits
  59999 ms and is admitted at 60000 but stored as 1; for the third call the stored 1 leaves
  the window after 1 ms, so it is admitted at 60001. Two calls are admitted within the
  window starting at 60000.
\<close>

theorem checkRateLimit_admits_two_within_a_window:
  "admissions 1 [] [0, 1, 60000] = [0, 60000, 60001]
   \<and> recorded 1 [] [0, 1, 60000] = [1, 60000]
   \<and> admittedWithin 60000 (admissions 1 [] [0, 1, 60000]) = 2"
  by (simp add: checkRateLimit_def windowMs_def admittedWithin_def)

section \<open>applyTags: exclusive collections reject, they do not swap\<close>






section \<open>evaluateConditions: what the result depends on\<close>





section \<open>canExecute: the daily limit counts successful executions\<close>

lemma recordExecution_history:
  "historyOf (recordExecution r oid succ dur err performed now) \<noteq> []
   \<and> last (historyOf (recordExecution r oid succ dur err performed now))
       = \<lparr>orderId = oid, executedAt = now, success = succ, duration = dur, error = err,
          actionsPerformed = performed\<rparr>"
  by (simp add: recordExecution_def historyOf_def Let_def)

lemma recordExecution_keeps:
  "rule_limits (recordExecution r oid succ dur err performed now) = rule_limits r
   \<and> enabled (recordExecution r oid succ dur err performed now) = enabled r"
  by (simp add: recordExecution_def Let_def)

lemma daily_gate_closed:
  assumes "limitOf r maxPerDay = Some 1" and "historyOf r \<noteq> []"
    and "success (last (historyOf r))" and "startOfDay tz now \<le> executedAt (last (historyOf r))"
  shows "canExecute r ord tz now = False"
proof -
  from assms(2,3,4) have "last (historyOf r) \<in> set (filter (\<lambda>h. executedAt h \<ge> startOfDay tz now \<and> success h) (historyOf r))"
    by simp
  then have "filter (\<lambda>h. executedAt h \<ge> startOfDay tz now \<and> success h) (historyOf r) \<noteq> []"
    by (metis empty_iff list.set(1))
  then have "1 \<le> int (length (filter (\<lambda>h. executedAt h \<ge> startOfDay tz now \<and> success h) (historyOf r)))"
    by (cases "filter (\<lambda>h. executedAt h \<ge> startOfDay tz now \<and> success h) (historyOf r)") auto
  with assms(1) show ?thesis by (simp add: canExecute_def truthy_def orZero_def)
qed

text \<open>
  Claim C8, as amended. For a rule with \<open>limits.maxPerDay = 1\<close> whose first trigger executed
  the actions and was recorded as a success, a second trigger on the calendar day of that
  record fails \<open>canExecute\<close>; the engine skips it: the actions are not executed again and
  the rule's statistics and history are left exactly as the first execution wrote them.
\<close>

theorem second_trigger_same_day_is_skipped:
  assumes "limitOf r maxPerDay = Some 1"
    and "processRule exec tz r ord1 t1 done1 = (r1, Executed)"
    and "fst (exec ord1)"
    and "startOfDay tz t2 \<le> done1"
  shows "canExecute r1 ord2 tz t2 = False
       \<and> processRule exec2 tz r1 ord2 t2 done2 = (r1, Skipped)"
proof -
  obtain succ dur err performed where e: "exec ord1 = (succ, dur, err, performed)"
    by (cases "exec ord1") auto
  with assms(3) have succ: "succ" by simp
  from assms(2) e have r1: "r1 = recordExecution r (order_id ord1) succ dur err performed done1"
    by (auto simp: processRule_def split: if_splits sum.splits bool.splits)
  have lim: "limitOf r1 maxPerDay = Some 1"
    using assms(1) recordExecution_keeps[of r] by (simp add: r1 limitOf_def)
  have gate: "canExecute r1 ord2 tz t2 = False"
    using daily_gate_closed[OF lim, of tz t2 ord2] recordExecution_history[of r] succ assms(4)
    by (simp add: r1)
  then show ?thesis by (simp add: processRule_def)
qed

lemmas gate_eval = processRule_def canExecute_def recordExecution_def evaluateConditions_def
  dailyRule_def someOrder_def succeeding_def failingActions_def limitOf_def statOf_def
  historyOf_def truthy_def orZero_def startOfDay_def dayMs_def emptyStats_def Let_def

theorem second_trigger_same_day_is_skipped_witness:
  "processRule succeeding 0 dailyRule someOrder 1000 1012
     = (fst (processRule succeeding 0 dailyRule someOrder 1000 1012), Executed)
   \<and> canExecute (fst (processRule succeeding 0 dailyRule someOrder 1000 1012)) someOrder 0 5000 = False
   \<and> processRule succeeding 0 (fst (processRule succeeding 0 dailyRule someOrder 1000 1012))
         someOrder 5000 5012
       = (fst (processRule succeeding 0 dailyRule someOrder 1000 1012), Skipped)"
proof -
  let ?r1 = "fst (processRule succeeding 0 dailyRule someOrder 1000 1012)"
  have h1: "limitOf dailyRule maxPerDay = Some 1" by (simp add: dailyRule_def limitOf_def)
  have "snd (processRule succeeding 0 dailyRule someOrder 1000 1012) = Executed"
    by (simp add: gate_eval)
  then have h2: "processRule succeeding 0 dailyRule someOrder 1000 1012 = (?r1, Executed)"
    by (metis prod.collapse)
  have h3: "fst (succeeding someOrder)" by (simp add: succeeding_def)
  have h4: "startOfDay 0 5000 \<le> 1012" by (simp add: startOfDay_def dayMs_def)
  from second_trigger_same_day_is_skipped[OF h1 h2 h3 h4, of someOrder succeeding 5012] h2
  show ?thesis by (intro conjI) simp_all
qed

text \<open>
  As stated the claim fails when the first execution is recorded as failed: \<open>canExecute\<close>
  counts only the successful records of the day, so the second trigger passes the gate and
  the actions are executed again.
\<close>

theorem second_trigger_after_failure_counterexample:
  "startOfDay 0 5000 \<le> 1012
   \<and> canExecute (recordExecution dailyRule ''o1'' False 12 (Some ''carrier unavailable'') [] 1012)
        someOrder 0 5000 = True
   \<and> snd (processRule failingActions 0
            (fst (processRule failingActions 0 dailyRule someOrder 1000 1012)) someOrder 5000 5012)
       = Executed"
  by (simp add: gate_eval)

section \<open>retryWithBackoff: attempts and delays\<close>

lemma retryLoop_done: "\<not> int i < maxRetries \<Longrightarrow> retryLoop fn maxRetries baseDelay rnd i w = (Inr None, w, [])"
  by (simp add: retryLoop.simps)







section \<open>The retry pipeline and the classification of errors\<close>

lemma countRequest_fields:
  "clock (countRequest w) = clock w" "log (countRequest w) = log w" "ext (countRequest w) = ext w"
  by (simp_all add: countRequest_def)





lemma external_log:
  "log (snd (external ev f w)) = log w @ [ev]" "metrics (snd (external ev f w)) = metrics w"
  "fst (external ev f w) = fst (f w)"
  by (simp_all add: external_def split: prod.splits)













section \<open>The credential refresh\<close>














lemma classify_401: "classifyError (mkError ''401'') = AUTH_EXPIRED"
  by (simp add: classify_eval)

lemmas pipeline_eval = executeWithResilience_def countRequest_def execute_def callThrough_def
  onFailure_def onSuccess_def newCircuitBreaker_def retryWithBackoff_def retryLoop.simps attempt_def
  handleFailure_def autoFix_def external_def sleep_def backoffDelay_def countAutoFixed_def
  catchBlock_def classifyThrown_def countFailed_def countSuccessful_def errorOf_def
  withMetadata_def noMetrics_def Let_def



section \<open>executeWithResilience: what reaches the caller\<close>

lemma handleFailure_not_nullish:
  assumes "\<forall>w. fst (operation cl w) \<noteq> Inl ThrownNullish" and "caught \<noteq> ThrownNullish"
  shows "fst (handleFailure operation cl caught w) \<noteq> Inl ThrownNullish"
proof -
  from assms(2) obtain err where c: "caught = Thrown err" by (cases caught) auto
  obtain fixr w1 where f: "autoFix (classifyError err) cl w = (fixr, w1)"
    by (cases "autoFix (classifyError err) cl w")
  show ?thesis
  proof (cases "\<exists>action. fixr = Some (True, action)")
    case True
    then obtain action where fx: "fixr = Some (True, action)" by blast
    let ?r = "external Invoke (operation cl) (countAutoFixed w1)"
    from assms(1) have "fst ?r \<noteq> Inl ThrownNullish" by (simp add: external_log)
    then show ?thesis
      using c f fx
      by (cases ?r) (auto simp: handleFailure_def classifyThrown_def split: sum.splits option.splits)
  next
    case False
    then show ?thesis
      using c f by (auto simp: handleFailure_def classifyThrown_def split: option.splits bool.splits)
  qed
qed

lemma attempt_not_nullish:
  assumes "\<forall>w. fst (operation cl w) \<noteq> Inl ThrownNullish"
  shows "fst (attempt operation cl w) \<noteq> Inl ThrownNullish"
proof -
  let ?r = "external Invoke (operation cl) w"
  from assms have n: "fst ?r \<noteq> Inl ThrownNullish" by (simp add: external_log)
  show ?thesis
  proof (cases "fst ?r")
    case (Inl caught)
    with n have "caught \<noteq> ThrownNullish" by auto
    from handleFailure_not_nullish[where operation=operation and cl=cl and w="snd ?r",
        OF assms this] Inl show ?thesis
      by (cases ?r) (simp add: attempt_def)
  next
    case (Inr v)
    show ?thesis
    proof (cases "errorOf v")
      case None
      with Inr show ?thesis by (cases ?r) (simp add: attempt_def)
    next
      case (Some err)
      have "Thrown err \<noteq> ThrownNullish" by simp
      from handleFailure_not_nullish[where operation=operation and cl=cl and w="snd ?r",
          OF assms this] Inr Some show ?thesis
        by (cases ?r) (simp add: attempt_def)
    qed
  qed
qed

lemma retryLoop_not_nullish:
  assumes "\<forall>w. fst (fn w) \<noteq> Inl ThrownNullish"
  shows "fst (retryLoop fn maxRetries baseDelay rnd i w) \<noteq> Inl ThrownNullish"
  using assms
proof (induction fn maxRetries baseDelay rnd i w rule: retryLoop.induct)
  case (1 fn maxRetries baseDelay rnd i w)
  obtain res w1 where f: "fn w = (res, w1)" by (cases "fn w")
  with "1.prems" have n: "res \<noteq> Inl ThrownNullish" by (metis fst_conv)
  show ?case
  proof (cases "int i < maxRetries \<and> (\<exists>e. res = Inl e) \<and> int i \<noteq> maxRetries - 1")
    case True
    then obtain e where e: "res = Inl e" by blast
    from "1.IH"[OF _ f[symmetric] e _ "1.prems"] True
    have "fst (retryLoop fn maxRetries baseDelay rnd (Suc i) (sleep (backoffDelay baseDelay rnd i) w1))
            \<noteq> Inl ThrownNullish" by simp
    with True f e show ?thesis
      by (cases "retryLoop fn maxRetries baseDelay rnd (Suc i) (sleep (backoffDelay baseDelay rnd i) w1)")
        (simp add: retryLoop.simps[of fn maxRetries baseDelay rnd i w])
  next
    case False
    with f n show ?thesis
      by (cases res) (auto simp: retryLoop.simps[of fn maxRetries baseDelay rnd i w])
  qed
qed

lemma execute_not_nullish:
  assumes "\<forall>w. fst (fn w) \<noteq> Inl ThrownNullish"
  shows "fst (execute cb fn w) \<noteq> Inl ThrownNullish"
proof -
  from assms have "fst (fn w) \<noteq> Inl ThrownNullish" by blast
  then show ?thesis
    by (cases "fn w") (auto simp: execute_def callThrough_def split: sum.splits)
qed

lemma catchBlock_thrown:
  "catchBlock startTime (Thrown err) w
     = (Inr (Failure (message err) (classifyError err) err (getUserFriendlyError (classifyError err))
               (clock w - startTime)), countFailed w)"
  by (simp add: catchBlock_def classifyThrown_def countFailed_def Let_def)

text \<open>
  When the operation never throws \<open>undefined\<close> or \<open>null\<close> and the selected client exists,
  \<open>executeWithResilience\<close> returns a result object and throws nothing: a failure carries the
  classified type of the error it reports, the message for the user that belongs to that
  type and the duration of the call; a success carries the data, the duration and the
  \<open>autoFixed\<close> flag.
\<close>

lemma executeWithResilience_returns_unless_nullish:
  assumes "(if useServiceRole then serviceClient m else Some (anonClient m)) = Some cl"
    and "\<forall>w. fst (operation cl w) \<noteq> Inl ThrownNullish"
  shows "\<exists>resp m' w'.
           executeWithResilience m type operation useServiceRole rnd w = (Inr resp, m', w')
           \<and> (case resp of
                 Failure msg ty details friendly dur \<Rightarrow>
                   ty = classifyError details \<and> msg = message details
                   \<and> friendly = getUserFriendlyError ty \<and> dur = clock w' - clock w
               | Success dat dur fixed action \<Rightarrow> dur = clock w' - clock w)"
proof (cases "circuitBreakers m type")
  case None
  with assms(1) show ?thesis
    by (simp add: executeWithResilience_def catchBlock_thrown countFailed_def Let_def
          countRequest_fields)
next
  case (Some cb)
  let ?fn = "retryWithBackoff (attempt operation cl) (config_maxRetries m) (config_baseDelay m) rnd"
  have fn: "\<forall>w. fst (?fn w) \<noteq> Inl ThrownNullish"
    using retryLoop_not_nullish[where fn="attempt operation cl" and i=0]
      attempt_not_nullish[where operation=operation and cl=cl, OF assms(2)]
    by (simp add: retryWithBackoff_def split: prod.splits) (metis fst_conv)
  obtain res cb' w1 where ex: "execute cb ?fn (countRequest w) = (res, cb', w1)"
    by (cases "execute cb ?fn (countRequest w)") auto
  with execute_not_nullish[OF fn, of cb "countRequest w"] have n: "res \<noteq> Inl ThrownNullish"
    by simp
  show ?thesis
  proof (cases res)
    case (Inl caught)
    with n obtain err where "caught = Thrown err" by (cases caught) auto
    with assms(1) Some ex Inl show ?thesis
      by (simp add: executeWithResilience_def catchBlock_thrown countFailed_def Let_def
            countRequest_fields)
  next
    case (Inr result)
    show ?thesis
    proof (cases result)
      case None
      with assms(1) Some ex Inr show ?thesis
        by (simp add: executeWithResilience_def catchBlock_thrown countFailed_def
              countSuccessful_def Let_def countRequest_fields)
    next
      case v: (Some v)
      with assms(1) Some ex Inr show ?thesis
        by (cases v)
          (simp_all add: executeWithResilience_def catchBlock_thrown countFailed_def
            countSuccessful_def Let_def countRequest_fields)
    qed
  qed
qed

text \<open>
  Claim C10 asks that nothing is thrown for every operation. It fails when the value that
  reaches the \<open>catch\<close> block of \<open>executeWithResilience\<close> is \<open>undefined\<close> or \<open>null\<close>: the block
  calls \<open>classifyError\<close>, which reads \<open>error.message\<close> and throws a \<open>TypeError\<close> from inside
  the block. A value caught by the inner \<open>catch\<close> is classified there first, so this happens
  when the call made after a successful auto-fix rejects without a reason. With an operation
  whose calls fail with status 401 and reject without a reason in turn, and a refresh that
  succeeds, the third attempt ends with \<open>undefined\<close> and the caller receives the \<open>TypeError\<close>.
\<close>

theorem executeWithResilience_throws_on_nullish_rejection:
  "(if False then serviceClient managerN else Some (anonClient managerN)) = Some refreshingN
   \<and> fst (executeWithResilience managerN ''query'' expiredThenRejecting False (\<lambda>_. 0) w0N)
       = Inl (Thrown (typeError ''Cannot read properties of undefined (reading 'message')''))
   \<and> log (snd (snd (executeWithResilience managerN ''query'' expiredThenRejecting False (\<lambda>_. 0) w0N)))
       = [Invoke, Refresh, Invoke, Sleep 1000, Invoke, Refresh, Invoke, Sleep 2000,
          Invoke, Refresh, Invoke]"
  by (simp add: pipeline_eval managerN_def refreshingN_def expiredThenRejecting_def w0N_def
        classify_401)

end
